theory Spec2Isabelle
  imports Complex_Main
begin

section \<open>JavaScript values seen by the route handlers\<close>

text \<open>
  The handlers of \<^verbatim>\<open>app.js\<close> receive loosely typed values: the fields of
  \<^verbatim>\<open>req.body\<close> are whatever the JSON or URL-encoded body parser produced, and
  \<^verbatim>\<open>req.params.id\<close> is always a string. A JavaScript number is a double; the
  program never computes with one, it only compares \<^verbatim>\<open>Price\<close> with zero and hands
  the value to the store, so a finite number is represented by its exact value. The
  two zeros are identified (no code path tells them apart). Arrays and objects as field
  values are outside the model.
\<close>

datatype jsnum = NaN | NegInf | Fin rat | PosInf

datatype jsval = JUndefined | JNull | JBool bool | JNumber jsnum | JString string

section \<open>The environment: conversions and faults\<close>

text \<open>
  Three conversions between text and numbers are performed by the platform (the JavaScript
  runtime and the SQLite library), not by code of the repository. They parse or print
  floating-point numbers, so they are parameters of the model:
  \<^item> \<open>StringToNumber\<close>: ECMAScript's conversion of a string operand of \<^verbatim>\<open><\<close>;
  \<^item> \<open>numeric_of_text\<close>: SQLite's NUMERIC affinity on a TEXT value, \<open>None\<close> when the
    text is not a well-formed integer or real literal;
  \<^item> \<open>text_of_numeric\<close>: SQLite's TEXT affinity on a numeric value.

  \<open>random_rowids\<close> are the candidates SQLite draws when the largest rowid is already
  in use. \<open>open_fault\<close> and \<open>stmt_fault\<close> are failures of the environment (the database
  file cannot be opened; a statement fails with an I/O or locking error), each carrying
  the message of the JavaScript \<^verbatim>\<open>Error\<close> that the driver throws.
\<close>

record env =
  StringToNumber :: "string \<Rightarrow> jsnum"
  numeric_of_text :: "string \<Rightarrow> jsnum option"
  text_of_numeric :: "jsnum \<Rightarrow> string"
  random_rowids :: "int list"
  open_fault :: "string option"
  stmt_fault :: "string option"

text \<open>ECMAScript \<^verbatim>\<open>ToNumber\<close> on a primitive value.\<close>

fun ToNumber :: "env \<Rightarrow> jsval \<Rightarrow> jsnum" where
  "ToNumber E JUndefined = NaN"
| "ToNumber E JNull = Fin 0"
| "ToNumber E (JBool b) = (if b then Fin 1 else Fin 0)"
| "ToNumber E (JNumber n) = n"
| "ToNumber E (JString s) = StringToNumber E s"

text \<open>
  \<^verbatim>\<open>Number::lessThan\<close>: a comparison with \<open>NaN\<close> is undefined, which \<^verbatim>\<open><\<close> and
  \<^verbatim>\<open>>=\<close> both turn into \<^verbatim>\<open>false\<close>.
\<close>

fun num_lt :: "jsnum \<Rightarrow> jsnum \<Rightarrow> bool" where
  "num_lt NaN y = False"
| "num_lt x NaN = False"
| "num_lt NegInf NegInf = False"
| "num_lt NegInf y = True"
| "num_lt (Fin a) NegInf = False"
| "num_lt (Fin a) (Fin b) = (a < b)"
| "num_lt (Fin a) PosInf = True"
| "num_lt PosInf y = False"

text \<open>
  \<^verbatim>\<open>x < n\<close> and \<^verbatim>\<open>x >= n\<close> for a number \<open>n\<close> on the right: the operands are not both
  strings, so both go through \<^verbatim>\<open>ToNumber\<close>.
\<close>

definition js_lt :: "env \<Rightarrow> jsval \<Rightarrow> jsnum \<Rightarrow> bool" where
  "js_lt E x n = num_lt (ToNumber E x) n"

definition js_ge :: "env \<Rightarrow> jsval \<Rightarrow> jsnum \<Rightarrow> bool" where
  "js_ge E x n = (ToNumber E x \<noteq> NaN \<and> n \<noteq> NaN \<and> \<not> num_lt (ToNumber E x) n)"

section \<open>The schema\<close>

text \<open>
  A value stored in a column. SQLite's INTEGER and REAL storage classes are merged into
  one numeric class that keeps the exact value; what the driver makes of it for
  JavaScript is \<open>js_of_sql\<close> below.
\<close>

datatype sqlval = SNull | SNumeric jsnum | SText string

text \<open>
  The three tables. \<^verbatim>\<open>INTEGER PRIMARY KEY\<close> columns are the rowid, an integer. The
  references and the quantity of an \<^verbatim>\<open>ORDER_DETAILS\<close> row are
  \<^verbatim>\<open>INTEGER NOT NULL\<close> and are only ever written by the seed script.
\<close>

record menu_row =
  FoodID :: int
  FoodName :: sqlval
  Price :: sqlval
  Description :: sqlval

record orders_row =
  OrderID :: int
  OrderDate :: sqlval
  CustomerName :: sqlval
  OrderTotal :: sqlval

record order_details_row =
  OrderDetailID :: int
  od_OrderID :: int
  od_FoodID :: int
  Quantity :: int

text \<open>The database file: each table is the list of its rows in rowid order.\<close>

record database =
  MENU :: "menu_row list"
  ORDERS :: "orders_row list"
  ORDER_DETAILS :: "order_details_row list"

definition menu_seed :: "int \<Rightarrow> string \<Rightarrow> rat \<Rightarrow> string \<Rightarrow> menu_row" where
  "menu_seed i n p d =
     \<lparr>FoodID = i, FoodName = SText n, Price = SNumeric (Fin p), Description = SText d\<rparr>"

definition orders_seed :: "int \<Rightarrow> string \<Rightarrow> string \<Rightarrow> rat \<Rightarrow> orders_row" where
  "orders_seed i d c t =
     \<lparr>OrderID = i, OrderDate = SText d, CustomerName = SText c, OrderTotal = SNumeric (Fin t)\<rparr>"

definition order_details_seed :: "int \<Rightarrow> int \<Rightarrow> int \<Rightarrow> int \<Rightarrow> order_details_row" where
  "order_details_seed i oid fid q =
     \<lparr>OrderDetailID = i, od_OrderID = oid, od_FoodID = fid, Quantity = q\<rparr>"

text \<open>
  The state after the schema script has run: the three \<^verbatim>\<open>INSERT\<close> statements name no
  rowid, so the rows of each table are numbered from 1 in the order they are listed.
\<close>

definition seed_db :: database where
  "seed_db = \<lparr>
     MENU = [
       menu_seed 1 ''Spaghetti Carbonara'' 12.5
         ''Classic Italian pasta with creamy sauce, bacon, and parmesan.'',
       menu_seed 2 ''Margherita Pizza'' 10
         ''Traditional pizza with tomato, mozzarella, and basil.'',
       menu_seed 3 ''Cheeseburger'' 8.5
         ''Grilled beef patty with cheddar cheese, lettuce, and tomato.'',
       menu_seed 4 ''Caesar Salad'' 7
         ''Fresh romaine lettuce, parmesan, croutons, and Caesar dressing.'',
       menu_seed 5 ''Fish Tacos'' 9.5
         ''Soft tacos filled with grilled fish, slaw, and a creamy sauce.'',
       menu_seed 6 ''Chicken Alfredo'' 13
         ''Fettuccine pasta with creamy alfredo sauce and grilled chicken.'',
       menu_seed 7 ''Vegetable Stir-Fry'' 11
         ''Stir-fried vegetables with soy sauce and a hint of sesame oil.'',
       menu_seed 8 ''BBQ Ribs'' 15
         ''Tender pork ribs glazed with BBQ sauce, served with fries.'',
       menu_seed 9 ''Tuna Poke Bowl'' 14
         ''Fresh tuna, rice, avocado, and seaweed salad in a sesame dressing.'',
       menu_seed 10 ''Lamb Shawarma'' 16
         ''Slow-cooked lamb wrapped in pita with garlic sauce and vegetables.''],
     ORDERS = [
       orders_seed 1 ''2024-11-01 12:45:00'' ''John Doe'' 32.5,
       orders_seed 2 ''2024-11-01 13:10:00'' ''Jane Smith'' 23,
       orders_seed 3 ''2024-11-01 13:30:00'' ''Emily White'' 47,
       orders_seed 4 ''2024-11-01 14:00:00'' ''Michael Brown'' 21.5,
       orders_seed 5 ''2024-11-01 14:15:00'' ''Linda Green'' 50,
       orders_seed 6 ''2024-11-02 16:00:00'' ''Chris Johnson'' 19,
       orders_seed 7 ''2024-11-02 16:30:00'' ''Alice Davis'' 36,
       orders_seed 8 ''2024-11-02 17:00:00'' ''David Miller'' 28,
       orders_seed 9 ''2024-11-03 18:00:00'' ''Sophia Lee'' 44.5,
       orders_seed 10 ''2024-11-03 18:30:00'' ''James Wilson'' 60],
     ORDER_DETAILS = [
       order_details_seed 1 1 1 1,
       order_details_seed 2 1 3 1,
       order_details_seed 3 2 2 2,
       order_details_seed 4 3 4 1,
       order_details_seed 5 3 6 2,
       order_details_seed 6 4 7 1,
       order_details_seed 7 5 8 1,
       order_details_seed 8 6 9 2,
       order_details_seed 9 7 5 3,
       order_details_seed 10 8 10 1,
       order_details_seed 11 9 2 1,
       order_details_seed 12 9 3 2,
       order_details_seed 13 10 6 2,
       order_details_seed 14 10 7 1]\<rparr>"

text \<open>
  A state satisfies the schema when the primary keys of each table are distinct 64-bit
  integers, listed in increasing order, and no \<^verbatim>\<open>NOT NULL\<close> column of \<^verbatim>\<open>MENU\<close>
  or \<^verbatim>\<open>ORDERS\<close> holds NULL.
\<close>

definition rowid_ok :: "int \<Rightarrow> bool" where
  "rowid_ok i = (- (2 ^ 63) \<le> i \<and> i \<le> 2 ^ 63 - 1)"

definition menu_row_ok :: "menu_row \<Rightarrow> bool" where
  "menu_row_ok r =
     (rowid_ok (FoodID r) \<and> FoodName r \<noteq> SNull \<and> Price r \<noteq> SNull \<and> Description r \<noteq> SNull)"

definition orders_row_ok :: "orders_row \<Rightarrow> bool" where
  "orders_row_ok r =
     (rowid_ok (OrderID r) \<and> OrderDate r \<noteq> SNull \<and> CustomerName r \<noteq> SNull
      \<and> OrderTotal r \<noteq> SNull)"

definition schema_ok :: "database \<Rightarrow> bool" where
  "schema_ok db =
     (distinct (map FoodID (MENU db)) \<and> sorted (map FoodID (MENU db))
      \<and> list_all menu_row_ok (MENU db)
      \<and> distinct (map OrderID (ORDERS db)) \<and> sorted (map OrderID (ORDERS db))
      \<and> list_all orders_row_ok (ORDERS db)
      \<and> distinct (map OrderDetailID (ORDER_DETAILS db))
      \<and> sorted (map OrderDetailID (ORDER_DETAILS db))
      \<and> list_all (\<lambda>d. rowid_ok (OrderDetailID d)) (ORDER_DETAILS db))"

text \<open>
  Referential integrity, the content of the two foreign keys of \<^verbatim>\<open>ORDER_DETAILS\<close>:
  every line item names an existing order and an existing menu item.
\<close>

definition ref_integrity :: "database \<Rightarrow> bool" where
  "ref_integrity db =
     list_all (\<lambda>d. od_OrderID d \<in> set (map OrderID (ORDERS db))
                 \<and> od_FoodID d \<in> set (map FoodID (MENU db)))
       (ORDER_DETAILS db)"

section \<open>Connections and statements\<close>

text \<open>
  A connection carries the per-connection setting \<^verbatim>\<open>PRAGMA foreign_keys\<close>. SQLite
  enforces the foreign keys of a schema (their \<^verbatim>\<open>ON DELETE CASCADE\<close> included) only on
  a connection where the setting is on, and a new connection starts with it off: the
  library documents that foreign key constraints are disabled by default and must be
  enabled separately for each connection (a build of the library may start with the
  setting on; the one bundled with the \<^verbatim>\<open>sqlite3\<close> package does not). No file of the
  repository issues the pragma.
\<close>

record connection =
  foreign_keys :: bool

datatype store_error = StoreError string

definition sqlite_open :: "env \<Rightarrow> store_error + connection" where
  "sqlite_open E =
     (case open_fault E of
        Some msg \<Rightarrow> Inl (StoreError msg)
      | None \<Rightarrow> Inr \<lparr>foreign_keys = False\<rparr>)"

text \<open>
  \<^verbatim>\<open>getDBConnection\<close> returns what \<^verbatim>\<open>sqlite.open\<close> returns; it issues no statement
  on the connection.
\<close>

definition getDBConnection :: "env \<Rightarrow> store_error + connection" where
  "getDBConnection E = sqlite_open E"

text \<open>
  Binding a JavaScript value to a \<^verbatim>\<open>?\<close> of a statement, as the driver does: a string
  is TEXT, a number is numeric except that SQLite stores a NaN as NULL, a boolean is 0 or
  1, \<^verbatim>\<open>null\<close> is NULL, and \<^verbatim>\<open>undefined\<close> leaves the parameter unbound, which SQLite
  reads as NULL.
\<close>

fun bind_param :: "jsval \<Rightarrow> sqlval" where
  "bind_param JUndefined = SNull"
| "bind_param JNull = SNull"
| "bind_param (JBool b) = SNumeric (if b then Fin 1 else Fin 0)"
| "bind_param (JNumber n) = (if n = NaN then SNull else SNumeric n)"
| "bind_param (JString s) = SText s"

text \<open>
  Column affinity. \<^verbatim>\<open>VARCHAR(50)\<close> and \<^verbatim>\<open>TEXT\<close> columns have TEXT affinity,
  \<^verbatim>\<open>DECIMAL(10, 2)\<close> has NUMERIC affinity.
\<close>

definition text_affinity :: "env \<Rightarrow> sqlval \<Rightarrow> sqlval" where
  "text_affinity E v = (case v of SNumeric n \<Rightarrow> SText (text_of_numeric E n) | _ \<Rightarrow> v)"

definition numeric_affinity :: "env \<Rightarrow> sqlval \<Rightarrow> sqlval" where
  "numeric_affinity E v =
     (case v of
        SText s \<Rightarrow> (case numeric_of_text E s of Some n \<Rightarrow> SNumeric n | None \<Rightarrow> SText s)
      | _ \<Rightarrow> v)"

text \<open>
  The comparison \<^verbatim>\<open>FoodID = ?\<close> (and \<^verbatim>\<open>OrderID = ?\<close>): the column is an integer
  and the parameter has no affinity, so NUMERIC affinity is applied to the parameter
  before the two are compared. NULL equals nothing.
\<close>

definition rowid_eq :: "env \<Rightarrow> int \<Rightarrow> sqlval \<Rightarrow> bool" where
  "rowid_eq E i v = (numeric_affinity E v = SNumeric (Fin (of_int i)))"

text \<open>
  The rowid of a new row of a table whose \<^verbatim>\<open>INTEGER PRIMARY KEY\<close> is not
  \<^verbatim>\<open>AUTOINCREMENT\<close>: 1 in an empty table, else one more than the largest rowid in
  use; when that is the largest 64-bit integer, the first unused positive candidate
  among the random draws, and failure (\<^verbatim>\<open>SQLITE_FULL\<close>) when none is unused.
\<close>

definition new_rowid :: "env \<Rightarrow> int list \<Rightarrow> int option" where
  "new_rowid E ids =
     (if ids = [] then Some 1
      else if Max (set ids) < 2 ^ 63 - 1 then Some (Max (set ids) + 1)
      else find (\<lambda>r. 0 < r \<and> r \<le> 2 ^ 63 - 1 \<and> r \<notin> set ids) (random_rowids E))"

text \<open>\<^verbatim>\<open>SELECT * FROM menu\<close>\<close>

definition select_menu :: "env \<Rightarrow> connection \<Rightarrow> database \<Rightarrow> store_error + menu_row list" where
  "select_menu E c db =
     (case stmt_fault E of
        Some msg \<Rightarrow> Inl (StoreError msg)
      | None \<Rightarrow> Inr (MENU db))"

text \<open>
  \<^verbatim>\<open>INSERT INTO menu (FoodName, Price, Description) VALUES (?, ?, ?)\<close>. The table has
  three \<^verbatim>\<open>NOT NULL\<close> columns and no \<^verbatim>\<open>CHECK\<close> constraint.
\<close>

definition insert_menu ::
  "env \<Rightarrow> connection \<Rightarrow> sqlval \<Rightarrow> sqlval \<Rightarrow> sqlval \<Rightarrow> database \<Rightarrow> store_error + database" where
  "insert_menu E c n p d db =
     (case stmt_fault E of
        Some msg \<Rightarrow> Inl (StoreError msg)
      | None \<Rightarrow>
          (case new_rowid E (map FoodID (MENU db)) of
             None \<Rightarrow> Inl (StoreError ''SQLITE_FULL: database or disk is full'')
           | Some i \<Rightarrow>
               if text_affinity E n = SNull then
                 Inl (StoreError ''SQLITE_CONSTRAINT: NOT NULL constraint failed: MENU.FoodName'')
               else if numeric_affinity E p = SNull then
                 Inl (StoreError ''SQLITE_CONSTRAINT: NOT NULL constraint failed: MENU.Price'')
               else if text_affinity E d = SNull then
                 Inl (StoreError ''SQLITE_CONSTRAINT: NOT NULL constraint failed: MENU.Description'')
               else
                 Inr (db\<lparr>MENU :=
                   insort_key FoodID
                     \<lparr>FoodID = i, FoodName = text_affinity E n, Price = numeric_affinity E p,
                      Description = text_affinity E d\<rparr>
                     (MENU db)\<rparr>)))"

text \<open>
  \<^verbatim>\<open>DELETE FROM menu WHERE FoodID = ?\<close>. The rows that match are removed. The
  constraint \<^verbatim>\<open>OrderDetail_Menu ... ON DELETE CASCADE\<close> removes the line items that
  reference a removed row, on a connection that enforces foreign keys.
\<close>

definition delete_menu ::
  "env \<Rightarrow> connection \<Rightarrow> sqlval \<Rightarrow> database \<Rightarrow> store_error + database" where
  "delete_menu E c v db =
     (case stmt_fault E of
        Some msg \<Rightarrow> Inl (StoreError msg)
      | None \<Rightarrow>
          Inr (db\<lparr>
            MENU := filter (\<lambda>r. \<not> rowid_eq E (FoodID r) v) (MENU db),
            ORDER_DETAILS :=
              (if foreign_keys c then
                 filter (\<lambda>d. od_FoodID d \<notin>
                     set (map FoodID (filter (\<lambda>r. rowid_eq E (FoodID r) v) (MENU db))))
                   (ORDER_DETAILS db)
               else ORDER_DETAILS db)\<rparr>))"

text \<open>
  Modelled from the spec: no function of the repository deletes an order. This is the
  spec's "Deleting an Order by identity: symmetric cascade to its OrderDetail rows", on
  the store the spec assumes, one that enforces the foreign keys of the schema: the
  order of that identity is removed and, by the constraint
  \<^verbatim>\<open>OrderDetail_Order ... ON DELETE CASCADE\<close>, so are the line items that reference a
  removed order.
\<close>

definition delete_orders :: "int \<Rightarrow> database \<Rightarrow> database" where
  "delete_orders i db =
     db\<lparr>
       ORDERS := filter (\<lambda>r. OrderID r \<noteq> i) (ORDERS db),
       ORDER_DETAILS :=
         filter (\<lambda>d. od_OrderID d \<notin>
             set (map OrderID (filter (\<lambda>r. OrderID r = i) (ORDERS db))))
           (ORDER_DETAILS db)\<rparr>"

section \<open>What the driver returns\<close>

text \<open>
  The driver hands a row to JavaScript as an object whose numbers are doubles. A stored
  integer (a rowid, or a numeric value held as INTEGER) of magnitude up to \<open>2 ^ 53\<close> is
  a double as it is; a larger one is rounded to 53 significant bits, a tie going to the
  even neighbour. \<open>ulp_of a\<close> is the distance between the doubles around \<open>a\<close>, the
  power of two that leaves 53 binary digits. A stored value that is not an integer is
  held as a double already.
\<close>

function ulp_of :: "int \<Rightarrow> int" where
  "ulp_of a = (if a < 2 ^ 53 then 1 else 2 * ulp_of (a div 2))"
  by pat_completeness auto
termination
  by (relation "measure nat") auto

definition double_of_int :: "int \<Rightarrow> int" where
  "double_of_int k =
     (if \<bar>k\<bar> \<le> 2 ^ 53 then k
      else
        (let a = \<bar>k\<bar>;
             ulp = ulp_of a;
             m = a div ulp;
             r = a mod ulp;
             m' = (if 2 * r < ulp then m
                   else if ulp < 2 * r then m + 1
                   else if even m then m else m + 1)
         in sgn k * (m' * ulp)))"

definition double_of_rat :: "rat \<Rightarrow> rat" where
  "double_of_rat q = (if q = of_int \<lfloor>q\<rfloor> then of_int (double_of_int \<lfloor>q\<rfloor>) else q)"

fun js_of_sql :: "sqlval \<Rightarrow> jsval" where
  "js_of_sql SNull = JNull"
| "js_of_sql (SNumeric n) = JNumber (case n of Fin q \<Rightarrow> Fin (double_of_rat q) | _ \<Rightarrow> n)"
| "js_of_sql (SText s) = JString s"

text \<open>An element of the array that \<^verbatim>\<open>db.all("SELECT * FROM menu")\<close> resolves to.\<close>

record menu_item =
  item_FoodID :: jsval
  item_FoodName :: jsval
  item_Price :: jsval
  item_Description :: jsval

definition driver_row :: "menu_row \<Rightarrow> menu_item" where
  "driver_row r =
     \<lparr>item_FoodID = JNumber (Fin (of_int (double_of_int (FoodID r)))),
      item_FoodName = js_of_sql (FoodName r),
      item_Price = js_of_sql (Price r),
      item_Description = js_of_sql (Description r)\<rparr>"

section \<open>Data access functions of app.js\<close>

definition getMenuItemsFromDB :: "env \<Rightarrow> database \<Rightarrow> store_error + menu_item list" where
  "getMenuItemsFromDB E db =
     (case getDBConnection E of
        Inl e \<Rightarrow> Inl e
      | Inr c \<Rightarrow>
          (case select_menu E c db of
             Inl e \<Rightarrow> Inl e
           | Inr rows \<Rightarrow> Inr (map driver_row rows)))"

definition insertMenuItem ::
  "env \<Rightarrow> jsval \<Rightarrow> jsval \<Rightarrow> jsval \<Rightarrow> database \<Rightarrow> store_error + database" where
  "insertMenuItem E FoodName' Price' Description' db =
     (case getDBConnection E of
        Inl e \<Rightarrow> Inl e
      | Inr c \<Rightarrow>
          insert_menu E c (bind_param FoodName') (bind_param Price') (bind_param Description') db)"

definition deleteMenuItemFromDB :: "env \<Rightarrow> jsval \<Rightarrow> database \<Rightarrow> store_error + database" where
  "deleteMenuItemFromDB E foodID db =
     (case getDBConnection E of
        Inl e \<Rightarrow> Inl e
      | Inr c \<Rightarrow> delete_menu E c (bind_param foodID) db)"

section \<open>Route handlers of app.js\<close>

text \<open>
  What \<^verbatim>\<open>res.json\<close> sends for a value: \<^verbatim>\<open>JSON.stringify\<close> writes a NaN or an
  infinity as \<^verbatim>\<open>null\<close> and leaves out a property whose value is \<^verbatim>\<open>undefined\<close>
  (\<open>None\<close>).
\<close>

datatype json = JsonNull | JsonBool bool | JsonNumber rat | JsonString string

fun json_of_js :: "jsval \<Rightarrow> json option" where
  "json_of_js JUndefined = None"
| "json_of_js JNull = Some JsonNull"
| "json_of_js (JBool b) = Some (JsonBool b)"
| "json_of_js (JNumber n) = Some (case n of Fin q \<Rightarrow> JsonNumber q | _ \<Rightarrow> JsonNull)"
| "json_of_js (JString s) = Some (JsonString s)"

record json_item =
  json_FoodID :: "json option"
  json_FoodName :: "json option"
  json_Price :: "json option"
  json_Description :: "json option"

definition json_of_item :: "menu_item \<Rightarrow> json_item" where
  "json_of_item x =
     \<lparr>json_FoodID = json_of_js (item_FoodID x),
      json_FoodName = json_of_js (item_FoodName x),
      json_Price = json_of_js (item_Price x),
      json_Description = json_of_js (item_Description x)\<rparr>"

datatype json_body = ErrorBody string | MessageBody string | ItemsBody "json_item list"

record response =
  status :: nat
  body :: json_body

text \<open>The fields that \<^verbatim>\<open>POST /api/menu\<close> reads from \<^verbatim>\<open>req.body\<close>; an absent field is
  \<open>JUndefined\<close>.\<close>

record post_body =
  req_FoodName :: jsval
  req_Price :: jsval
  req_Description :: jsval

text \<open>\<^verbatim>\<open>app.get("/api/menu", ...)\<close>\<close>

definition get_api_menu :: "env \<Rightarrow> database \<Rightarrow> response" where
  "get_api_menu E db =
     (case getMenuItemsFromDB E db of
        Inr items \<Rightarrow> \<lparr>status = 200, body = ItemsBody (map json_of_item items)\<rparr>
      | Inl err \<Rightarrow> \<lparr>status = 500, body = ErrorBody ''Error retrieving menu items''\<rparr>)"

text \<open>\<^verbatim>\<open>app.post("/api/menu", ...)\<close>: the response and the state of the store afterwards.\<close>

definition post_api_menu :: "env \<Rightarrow> post_body \<Rightarrow> database \<Rightarrow> response \<times> database" where
  "post_api_menu E req db =
     (if js_lt E (req_Price req) (Fin 0) then
        (\<lparr>status = 400, body = ErrorBody ''Price must be a positive number.''\<rparr>, db)
      else
        (case insertMenuItem E (req_FoodName req) (req_Price req) (req_Description req) db of
           Inr db' \<Rightarrow> (\<lparr>status = 200, body = MessageBody ''Item added successfully''\<rparr>, db')
         | Inl err \<Rightarrow>
             (\<lparr>status = 500, body = ErrorBody ''Internal Server Error: Please try again later.''\<rparr>,
              db)))"

text \<open>\<^verbatim>\<open>app.delete("/api/menu/:id", ...)\<close>: \<open>id\<close> is the path segment, a string.\<close>

definition delete_api_menu :: "env \<Rightarrow> string \<Rightarrow> database \<Rightarrow> response \<times> database" where
  "delete_api_menu E id' db =
     (case deleteMenuItemFromDB E (JString id') db of
        Inr db' \<Rightarrow> (\<lparr>status = 200, body = MessageBody ''Item deleted successfully''\<rparr>, db')
      | Inl err \<Rightarrow> (\<lparr>status = 500, body = ErrorBody ''Error deleting menu item''\<rparr>, db))"

text \<open>The exposed operations, and the state after a sequence of them.\<close>

datatype api_call = ListMenu | CreateItem post_body | DeleteItem string

fun api_step :: "env \<Rightarrow> database \<Rightarrow> api_call \<Rightarrow> database" where
  "api_step E db ListMenu = db"
| "api_step E db (CreateItem req) = snd (post_api_menu E req db)"
| "api_step E db (DeleteItem i) = snd (delete_api_menu E i db)"

definition api_run :: "env \<Rightarrow> api_call list \<Rightarrow> database \<Rightarrow> database" where
  "api_run E calls db = foldl (api_step E) db calls"

section \<open>An environment for worked examples\<close>

text \<open>
  The worked examples below run in an environment without faults whose conversions are
  those of plain integer literals: an optional minus sign followed by decimal digits is
  read as that integer, an integer is printed in the same form, and every other text is
  taken as not numeric. On plain integer literals, on integers and on the text
  \<open>''abc''\<close> every JavaScript runtime and every SQLite build convert as it does; the
  examples convert nothing else.
\<close>

definition is_digit :: "char \<Rightarrow> bool" where
  "is_digit c = (48 \<le> (of_char c :: nat) \<and> (of_char c :: nat) \<le> 57)"

definition nat_literal :: "string \<Rightarrow> nat option" where
  "nat_literal s =
     (if s \<noteq> [] \<and> list_all is_digit s
      then Some (foldl (\<lambda>a c. 10 * a + (of_char c - 48)) 0 s)
      else None)"

definition int_literal :: "string \<Rightarrow> int option" where
  "int_literal s =
     (case s of
        [] \<Rightarrow> None
      | c # t \<Rightarrow>
          if c = CHR ''-'' then map_option (\<lambda>n. - int n) (nat_literal t)
          else map_option int (nat_literal s))"

fun show_nat :: "nat \<Rightarrow> string" where
  "show_nat n =
     (if n < 10 then [char_of (48 + n)]
      else show_nat (n div 10) @ [char_of (48 + n mod 10)])"

definition show_int :: "int \<Rightarrow> string" where
  "show_int i = (if i < 0 then CHR ''-'' # show_nat (nat (- i)) else show_nat (nat i))"

definition example_env :: env where
  "example_env = \<lparr>
     StringToNumber = (\<lambda>s. case int_literal s of Some i \<Rightarrow> Fin (of_int i) | None \<Rightarrow> NaN),
     numeric_of_text = (\<lambda>s. map_option (\<lambda>i. Fin (of_int i)) (int_literal s)),
     text_of_numeric =
       (\<lambda>n. case n of Fin q \<Rightarrow> (if q = of_int \<lfloor>q\<rfloor> then show_int \<lfloor>q\<rfloor> else []) | _ \<Rightarrow> []),
     random_rowids = [],
     open_fault = None,
     stmt_fault = None\<rparr>"

section \<open>Properties of the connection, the statements and the data access functions\<close>

lemma getDBConnection_no_fault:
  "open_fault E = None \<Longrightarrow> getDBConnection E = Inr \<lparr>foreign_keys = False\<rparr>"
  by (simp add: getDBConnection_def sqlite_open_def)


text \<open>No connection that the application opens enforces foreign keys.\<close>

lemma getDBConnection_never_enforces:
  "getDBConnection E = Inr c \<Longrightarrow> \<not> foreign_keys c"
  by (auto simp: getDBConnection_def sqlite_open_def split: option.splits)

lemma rowid_eq_text_numeric:
  "numeric_of_text E s = Some (Fin (of_int k)) \<Longrightarrow> rowid_eq E i (SText s) = (i = k)"
  by (auto simp: rowid_eq_def numeric_affinity_def)

lemma rowid_eq_unique: "rowid_eq E i v \<Longrightarrow> rowid_eq E j v \<Longrightarrow> i = j"
  by (simp add: rowid_eq_def)

lemma matched_ids:
  assumes "rowid_eq E i v" and "i \<in> set (map key rows)"
  shows "set (map key (filter (\<lambda>r. rowid_eq E (key r) v) rows)) = {i}"
  using assms by (auto dest: rowid_eq_unique)


lemma new_rowid_total:
  assumes "list_all (\<lambda>i. i < 2 ^ 63 - 1) ids"
  shows "\<exists>i. new_rowid E ids = Some i"
proof (cases "ids = []")
  case True
  then show ?thesis by (simp add: new_rowid_def)
next
  case False
  then have "Max (set ids) \<in> set ids" by simp
  with assms have "Max (set ids) < 2 ^ 63 - 1" by (simp add: list_all_iff)
  with False show ?thesis
    unfolding new_rowid_def by (simp only: if_not_P if_P if_False) blast
qed

text \<open>
  What the schema's constraint does on a connection that enforces it: the line items of
  a deleted menu item go with it, and no other line item does.
\<close>

lemma delete_menu_cascades_when_enforced:
  assumes "foreign_keys c" and "stmt_fault E = None"
    and "rowid_eq E i v" and "i \<in> set (map FoodID (MENU db))"
  shows "delete_menu E c v db =
           Inr (db\<lparr>MENU := filter (\<lambda>r. \<not> rowid_eq E (FoodID r) v) (MENU db),
                  ORDER_DETAILS := filter (\<lambda>d. od_FoodID d \<noteq> i) (ORDER_DETAILS db)\<rparr>)"
proof -
  have "set (map FoodID (filter (\<lambda>r. rowid_eq E (FoodID r) v) (MENU db))) = {i}"
    using assms(3,4) by (rule matched_ids)
  with assms(1,2) show ?thesis by (simp add: delete_menu_def)
qed

text \<open>What \<^verbatim>\<open>deleteMenuItemFromDB\<close> does: it never touches a line item.\<close>

lemma deleteMenuItemFromDB_result:
  assumes "open_fault E = None" and "stmt_fault E = None"
  shows "deleteMenuItemFromDB E v db =
           Inr (db\<lparr>MENU := filter (\<lambda>r. \<not> rowid_eq E (FoodID r) (bind_param v)) (MENU db)\<rparr>)"
  using assms
  by (simp add: deleteMenuItemFromDB_def getDBConnection_no_fault delete_menu_def)

lemma deleteMenuItemFromDB_keeps_order_details:
  "deleteMenuItemFromDB E v db = Inr db' \<Longrightarrow>
   ORDER_DETAILS db' = ORDER_DETAILS db \<and> ORDERS db' = ORDERS db"
  by (auto simp: deleteMenuItemFromDB_def getDBConnection_def sqlite_open_def delete_menu_def
      split: option.splits)

text \<open>What the other two data access functions do in an environment without faults.\<close>

lemma insertMenuItem_result:
  assumes "open_fault E = None" and "stmt_fault E = None"
    and "n \<noteq> NaN"
    and "new_rowid E (map FoodID (MENU db)) = Some i"
  shows "insertMenuItem E (JString nm) (JNumber n) (JString d) db =
           Inr (db\<lparr>MENU := insort_key FoodID
                  \<lparr>FoodID = i, FoodName = SText nm, Price = SNumeric n, Description = SText d\<rparr>
                  (MENU db)\<rparr>)"
  using assms
  by (simp add: insertMenuItem_def getDBConnection_no_fault insert_menu_def
      text_affinity_def numeric_affinity_def)

lemma getMenuItemsFromDB_result:
  "open_fault E = None \<Longrightarrow> stmt_fault E = None \<Longrightarrow>
   getMenuItemsFromDB E db = Inr (map driver_row (MENU db))"
  by (simp add: getMenuItemsFromDB_def getDBConnection_no_fault select_menu_def)

lemma get_api_menu_result:
  "open_fault E = None \<Longrightarrow> stmt_fault E = None \<Longrightarrow>
   get_api_menu E db
     = \<lparr>status = 200, body = ItemsBody (map json_of_item (map driver_row (MENU db)))\<rparr>"
  by (simp add: get_api_menu_def getMenuItemsFromDB_result)






lemma length_filter_other_key:
  "distinct (map f xs) \<Longrightarrow> k \<in> set (map f xs) \<Longrightarrow>
   length (filter (\<lambda>r. f r \<noteq> k) xs) + 1 = length xs"
proof (induction xs)
  case Nil
  then show ?case by simp
next
  case (Cons x xs)
  show ?case
  proof (cases "f x = k")
    case True
    with Cons.prems have "k \<notin> set (map f xs)" by simp
    then have "filter (\<lambda>r. f r \<noteq> k) xs = xs" by (auto simp: filter_id_conv)
    with True show ?thesis by simp
  next
    case False
    with Cons show ?thesis by simp
  qed
qed

text \<open>
  Referential integrity and the statements. On a connection that enforces foreign keys
  the \<^verbatim>\<open>DELETE\<close> on \<^verbatim>\<open>MENU\<close> keeps it; the create operation keeps it on any
  connection, since it only adds a row to \<^verbatim>\<open>MENU\<close>.
\<close>

lemma delete_menu_keeps_ref_integrity_when_enforced:
  assumes "foreign_keys c" and "ref_integrity db" and "delete_menu E c v db = Inr db'"
  shows "ref_integrity db'"
proof -
  let ?gone = "set (map FoodID (filter (\<lambda>r. rowid_eq E (FoodID r) v) (MENU db)))"
  from assms(1,3) have m: "MENU db' = filter (\<lambda>r. \<not> rowid_eq E (FoodID r) v) (MENU db)"
    and o: "ORDERS db' = ORDERS db"
    and d: "ORDER_DETAILS db' = filter (\<lambda>d. od_FoodID d \<notin> ?gone) (ORDER_DETAILS db)"
    by (auto simp: delete_menu_def split: option.splits)
  have "od_OrderID x \<in> set (map OrderID (ORDERS db')) \<and> od_FoodID x \<in> set (map FoodID (MENU db'))"
    if x: "x \<in> set (ORDER_DETAILS db')" for x
  proof -
    from x d have x0: "x \<in> set (ORDER_DETAILS db)" and kept: "od_FoodID x \<notin> ?gone" by auto
    from x0 assms(2) have "od_OrderID x \<in> set (map OrderID (ORDERS db))"
      and "od_FoodID x \<in> set (map FoodID (MENU db))"
      by (auto simp: ref_integrity_def list_all_iff)
    with kept m o show ?thesis by auto
  qed
  then show ?thesis by (simp add: ref_integrity_def list_all_iff)
qed

lemma create_keeps_ref_integrity:
  assumes "ref_integrity db"
  shows "ref_integrity (snd (post_api_menu E req db))"
proof (cases "post_api_menu E req db = (fst (post_api_menu E req db), db)")
  case True
  then have "snd (post_api_menu E req db) = db" by (metis snd_conv)
  with assms show ?thesis by simp
next
  case False
  then obtain db' where ins:
    "insertMenuItem E (req_FoodName req) (req_Price req) (req_Description req) db = Inr db'"
    and res: "snd (post_api_menu E req db) = db'"
    by (auto simp: post_api_menu_def split: if_splits sum.splits)
  from ins have "set (MENU db) \<subseteq> set (MENU db')" and "ORDERS db' = ORDERS db"
    and "ORDER_DETAILS db' = ORDER_DETAILS db"
    by (auto simp: insertMenuItem_def insert_menu_def set_insort_key
        split: sum.splits option.splits if_splits)
  with assms res show ?thesis
    by (auto simp: ref_integrity_def list_all_iff)
qed

text \<open>Facts about the environment and the state of the worked examples.\<close>

lemma example_env_no_fault: "open_fault example_env = None" "stmt_fault example_env = None"
  by (simp_all add: example_env_def)

lemma seed_new_rowid: "new_rowid example_env (map FoodID (MENU seed_db)) = Some 11"
  by code_simp

section \<open>The claims\<close>

subsection \<open>C1: deleting a menu item and its line items\<close>

text \<open>
  C1 says that deleting a MenuItem removes, together with the MENU row, every
  ORDER_DETAILS row whose FoodID references it, through the cascade constraint of the
  schema. The schema declares the constraint, but \<^verbatim>\<open>deleteMenuItemFromDB\<close> runs its
  statement on a connection of \<^verbatim>\<open>getDBConnection\<close>, which does not enforce foreign
  keys. On the seeded store, \<^verbatim>\<open>DELETE /api/menu/1\<close> answers 200 and removes the MENU
  row 1, and the line item that references FoodID 1 is still there.
\<close>

theorem C1_delete_menu_item_leaves_line_items:
  "fst (delete_api_menu example_env ''1'' seed_db)
     = \<lparr>status = 200, body = MessageBody ''Item deleted successfully''\<rparr>
   \<and> map FoodID (MENU (snd (delete_api_menu example_env ''1'' seed_db)))
     = [2, 3, 4, 5, 6, 7, 8, 9, 10]
   \<and> filter (\<lambda>d. od_FoodID d = 1)
       (ORDER_DETAILS (snd (delete_api_menu example_env ''1'' seed_db)))
     = [order_details_seed 1 1 1 1]"
  by code_simp

subsection \<open>C2: referential integrity as an invariant\<close>

text \<open>
  C2 says that every state reachable from the seeded state by the list, create and
  delete operations keeps referential integrity. The seeded state satisfies the schema
  and has referential integrity; the state after the single call
  \<^verbatim>\<open>DELETE /api/menu/1\<close> does not. (The create operation keeps the invariant,
  and so would the delete on a connection that enforced foreign keys: see
  \<open>create_keeps_ref_integrity\<close> and \<open>delete_menu_keeps_ref_integrity_when_enforced\<close>.)
\<close>

theorem C2_delete_breaks_referential_integrity:
  "schema_ok seed_db \<and> ref_integrity seed_db
   \<and> \<not> ref_integrity (api_run example_env [DeleteItem ''1''] seed_db)"
  by code_simp

subsection \<open>C3: deleting an order\<close>

text \<open>
  C3: deleting an existing Order removes it together with all of its OrderDetail line
  items and no other line item. In particular the seeded state has exactly two
  ORDER_DETAILS rows with OrderID 1, and after the Order with id 1 is deleted no
  ORDER_DETAILS row with OrderID 1 remains.
\<close>

theorem C3_delete_order_cascades:
  "(i \<in> set (map OrderID (ORDERS db)) \<longrightarrow>
      i \<notin> set (map OrderID (ORDERS (delete_orders i db)))
      \<and> filter (\<lambda>d. od_OrderID d = i) (ORDER_DETAILS (delete_orders i db)) = []
      \<and> ORDER_DETAILS (delete_orders i db) = filter (\<lambda>d. od_OrderID d \<noteq> i) (ORDER_DETAILS db)
      \<and> MENU (delete_orders i db) = MENU db)
   \<and> length (filter (\<lambda>d. od_OrderID d = 1) (ORDER_DETAILS seed_db)) = 2
   \<and> filter (\<lambda>d. od_OrderID d = 1) (ORDER_DETAILS (delete_orders 1 seed_db)) = []"
proof -
  have gen: "i \<notin> set (map OrderID (ORDERS (delete_orders i db)))
      \<and> filter (\<lambda>d. od_OrderID d = i) (ORDER_DETAILS (delete_orders i db)) = []
      \<and> ORDER_DETAILS (delete_orders i db) = filter (\<lambda>d. od_OrderID d \<noteq> i) (ORDER_DETAILS db)
      \<and> MENU (delete_orders i db) = MENU db"
    if mem: "i \<in> set (map OrderID (ORDERS db))" for i db
  proof -
    from mem have "set (map OrderID (filter (\<lambda>r. OrderID r = i) (ORDERS db))) = {i}"
      by auto
    moreover have "i \<notin> set (map OrderID (filter (\<lambda>r. OrderID r \<noteq> i) (ORDERS db)))"
      by auto
    ultimately show ?thesis by (simp add: delete_orders_def)
  qed
  have two: "length (filter (\<lambda>d. od_OrderID d = 1) (ORDER_DETAILS seed_db)) = 2"
    by code_simp
  have "1 \<in> set (map OrderID (ORDERS seed_db))" by code_simp
  from gen [OF this] gen two show ?thesis by blast
qed

text \<open>
  The seeded state and order 1: its two line items are the first two ORDER_DETAILS rows,
  and the twelve others are kept.
\<close>

theorem C3_delete_order_cascades_witness:
  "1 \<in> set (map OrderID (ORDERS seed_db))
   \<and> map OrderDetailID (filter (\<lambda>d. od_OrderID d = 1) (ORDER_DETAILS seed_db)) = [1, 2]
   \<and> 1 \<notin> set (map OrderID (ORDERS (delete_orders 1 seed_db)))
   \<and> filter (\<lambda>d. od_OrderID d = 1) (ORDER_DETAILS (delete_orders 1 seed_db)) = []
   \<and> map OrderDetailID (ORDER_DETAILS (delete_orders 1 seed_db))
       = [3, 4, 5, 6, 7, 8, 9, 10, 11, 12, 13, 14]
   \<and> MENU (delete_orders 1 seed_db) = MENU seed_db"
proof -
  have h: "1 \<in> set (map OrderID (ORDERS seed_db))" by code_simp
  have before: "map OrderDetailID (filter (\<lambda>d. od_OrderID d = 1) (ORDER_DETAILS seed_db)) = [1, 2]"
    by code_simp
  have kept: "map OrderDetailID (filter (\<lambda>d. od_OrderID d \<noteq> 1) (ORDER_DETAILS seed_db))
       = [3, 4, 5, 6, 7, 8, 9, 10, 11, 12, 13, 14]"
    by code_simp
  from C3_delete_order_cascades [of 1 seed_db] h
  have "1 \<notin> set (map OrderID (ORDERS (delete_orders 1 seed_db)))
      \<and> filter (\<lambda>d. od_OrderID d = 1) (ORDER_DETAILS (delete_orders 1 seed_db)) = []
      \<and> ORDER_DETAILS (delete_orders 1 seed_db)
          = filter (\<lambda>d. od_OrderID d \<noteq> 1) (ORDER_DETAILS seed_db)
      \<and> MENU (delete_orders 1 seed_db) = MENU seed_db"
    by blast
  with h before kept show ?thesis by simp
qed

subsection \<open>C4: the price check of POST /api/menu\<close>

text \<open>
  As stated, C4 fails for a Price that is not a number: an absent Price is not
  \<^verbatim>\<open>>= 0\<close>, yet the request reaches the store and the answer is 500 (the store rejects
  the NULL); the string \<open>''abc''\<close> is not \<^verbatim>\<open>>= 0\<close>, yet the answer is 200 and a row
  with that Price is persisted.
\<close>

theorem C4_price_not_ge_zero_yet_not_rejected:
  "\<not> js_ge example_env JUndefined (Fin 0)
   \<and> fst (post_api_menu example_env
        \<lparr>req_FoodName = JString ''Test Food'', req_Price = JUndefined,
         req_Description = JString ''A tasty test food''\<rparr> seed_db)
     = \<lparr>status = 500, body = ErrorBody ''Internal Server Error: Please try again later.''\<rparr>
   \<and> \<not> js_ge example_env (JString ''abc'') (Fin 0)
   \<and> post_api_menu example_env
        \<lparr>req_FoodName = JString ''Test Food'', req_Price = JString ''abc'',
         req_Description = JString ''A tasty test food''\<rparr> seed_db
     = (\<lparr>status = 200, body = MessageBody ''Item added successfully''\<rparr>,
        seed_db\<lparr>MENU := MENU seed_db @
          [\<lparr>FoodID = 11, FoodName = SText ''Test Food'', Price = SText ''abc'',
            Description = SText ''A tasty test food''\<rparr>]\<rparr>)"
  by code_simp

text \<open>
  C4, amended: POST /api/menu responds 400 exactly when Price compares less than 0
  under JavaScript's \<^verbatim>\<open><\<close>, and then the body is
  \<^verbatim>\<open>{error: "Price must be a positive number."}\<close>, the store is unchanged and a
  subsequent listing is what it was before; otherwise the handler delegates the insert
  to the store and answers 200 or 500 by its outcome. For a Price that is a finite
  number, comparing less than 0 is the same as not being \<^verbatim>\<open>>= 0\<close>.
\<close>

theorem C4_post_rejects_exactly_a_price_below_zero:
  "(status (fst (post_api_menu E req db)) = 400) = js_lt E (req_Price req) (Fin 0)
   \<and> (js_lt E (req_Price req) (Fin 0) \<longrightarrow>
        post_api_menu E req db
          = (\<lparr>status = 400, body = ErrorBody ''Price must be a positive number.''\<rparr>, db)
        \<and> get_api_menu E (snd (post_api_menu E req db)) = get_api_menu E db)
   \<and> (\<not> js_lt E (req_Price req) (Fin 0) \<longrightarrow>
        post_api_menu E req db
          = (case insertMenuItem E (req_FoodName req) (req_Price req) (req_Description req) db of
               Inr db' \<Rightarrow> (\<lparr>status = 200, body = MessageBody ''Item added successfully''\<rparr>, db')
             | Inl err \<Rightarrow>
                 (\<lparr>status = 500,
                   body = ErrorBody ''Internal Server Error: Please try again later.''\<rparr>, db)))
   \<and> (req_Price req = JNumber (Fin q) \<longrightarrow>
        js_lt E (req_Price req) (Fin 0) = (\<not> js_ge E (req_Price req) (Fin 0)))"
  by (auto simp: post_api_menu_def js_lt_def js_ge_def split: sum.splits)

text \<open>The prices -5 (rejected, nothing persisted) and 15.99 (not rejected) of the tests.\<close>

theorem C4_post_rejects_witness:
  "js_lt example_env (JNumber (Fin (- 5))) (Fin 0)
   \<and> \<not> js_ge example_env (JNumber (Fin (- 5))) (Fin 0)
   \<and> post_api_menu example_env
        \<lparr>req_FoodName = JString ''Test Food'', req_Price = JNumber (Fin (- 5)),
         req_Description = JString ''An invalid test food''\<rparr> seed_db
      = (\<lparr>status = 400, body = ErrorBody ''Price must be a positive number.''\<rparr>, seed_db)
   \<and> get_api_menu example_env (snd (post_api_menu example_env
        \<lparr>req_FoodName = JString ''Test Food'', req_Price = JNumber (Fin (- 5)),
         req_Description = JString ''An invalid test food''\<rparr> seed_db))
      = get_api_menu example_env seed_db
   \<and> \<not> js_lt example_env (JNumber (Fin 15.99)) (Fin 0)
   \<and> status (fst (post_api_menu example_env
        \<lparr>req_FoodName = JString ''Test Food'', req_Price = JNumber (Fin 15.99),
         req_Description = JString ''A tasty test food''\<rparr> seed_db)) \<noteq> 400"
proof -
  have neg: "js_lt example_env (JNumber (Fin (- 5))) (Fin 0)"
    by (simp add: js_lt_def)
  have pos: "\<not> js_lt example_env (JNumber (Fin 15.99)) (Fin 0)"
    by (simp add: js_lt_def)
  note rejected = C4_post_rejects_exactly_a_price_below_zero
        [of example_env "\<lparr>req_FoodName = JString ''Test Food'', req_Price = JNumber (Fin (- 5)),
           req_Description = JString ''An invalid test food''\<rparr>" seed_db "- 5"]
  note accepted = C4_post_rejects_exactly_a_price_below_zero
        [of example_env "\<lparr>req_FoodName = JString ''Test Food'', req_Price = JNumber (Fin 15.99),
           req_Description = JString ''A tasty test food''\<rparr>" seed_db "15.99"]
  have sel:
    "req_Price \<lparr>req_FoodName = JString ''Test Food'', req_Price = JNumber (Fin (- 5)),
           req_Description = JString ''An invalid test food''\<rparr> = JNumber (Fin (- 5))"
    "req_Price \<lparr>req_FoodName = JString ''Test Food'', req_Price = JNumber (Fin 15.99),
           req_Description = JString ''A tasty test food''\<rparr> = JNumber (Fin 15.99)"
    by simp_all
  show ?thesis
    using neg pos rejected accepted unfolding sel by blast
qed

subsection \<open>C5: create, then list\<close>




subsection \<open>C6: deleting an identity that is not in MENU\<close>

text \<open>
  C6: when the identity in the path is the FoodID of no MENU row, DELETE /api/menu/:id
  (in an environment without faults) responds 200
  \<^verbatim>\<open>{message: "Item deleted successfully"}\<close> and the state of the store is unchanged.
\<close>

theorem C6_delete_absent_identity_is_a_no_op:
  assumes "open_fault E = None" and "stmt_fault E = None"
    and "list_all (\<lambda>r. numeric_of_text E id' \<noteq> Some (Fin (of_int (FoodID r)))) (MENU db)"
  shows "delete_api_menu E id' db
           = (\<lparr>status = 200, body = MessageBody ''Item deleted successfully''\<rparr>, db)"
proof -
  have "\<not> rowid_eq E (FoodID r) (bind_param (JString id'))" if "r \<in> set (MENU db)" for r
    using assms(3) that
    by (auto simp: rowid_eq_def numeric_affinity_def list_all_iff split: option.splits)
  then have "filter (\<lambda>r. \<not> rowid_eq E (FoodID r) (bind_param (JString id'))) (MENU db) = MENU db"
    by (auto simp: filter_id_conv)
  then have "deleteMenuItemFromDB E (JString id') db = Inr db"
    using assms(1,2) by (simp add: deleteMenuItemFromDB_result)
  then show ?thesis by (simp add: delete_api_menu_def)
qed

text \<open>The identity 999 in the seeded store.\<close>

theorem C6_delete_absent_identity_witness:
  "open_fault example_env = None \<and> stmt_fault example_env = None
   \<and> list_all (\<lambda>r. numeric_of_text example_env ''999'' \<noteq> Some (Fin (of_int (FoodID r))))
       (MENU seed_db)
   \<and> delete_api_menu example_env ''999'' seed_db
       = (\<lparr>status = 200, body = MessageBody ''Item deleted successfully''\<rparr>, seed_db)"
proof -
  have h: "list_all (\<lambda>r. numeric_of_text example_env ''999'' \<noteq> Some (Fin (of_int (FoodID r))))
       (MENU seed_db)"
    by code_simp
  show ?thesis
    using example_env_no_fault h
      C6_delete_absent_identity_is_a_no_op [OF example_env_no_fault h]
    by blast
qed

subsection \<open>C7: what a delete leaves alone\<close>

text \<open>
  C7: when the identity in the path is a FoodID present in MENU (whose FoodIDs are
  distinct, as the schema requires), the delete removes exactly that one row from MENU:
  the table afterwards is the table before without the row of that FoodID, one row
  shorter; ORDERS is unchanged; and a subsequent listing returns the remaining rows with
  the fields they had.
\<close>

theorem C7_delete_removes_exactly_that_row:
  assumes "open_fault E = None" and "stmt_fault E = None"
    and "numeric_of_text E id' = Some (Fin (of_int k))"
    and "k \<in> set (map FoodID (MENU db))"
    and "distinct (map FoodID (MENU db))"
  shows "\<exists>db'.
           delete_api_menu E id' db
             = (\<lparr>status = 200, body = MessageBody ''Item deleted successfully''\<rparr>, db')
           \<and> MENU db' = filter (\<lambda>r. FoodID r \<noteq> k) (MENU db)
           \<and> length (MENU db') + 1 = length (MENU db)
           \<and> ORDERS db' = ORDERS db
           \<and> get_api_menu E db'
               = \<lparr>status = 200,
                  body = ItemsBody (map json_of_item (map driver_row
                           (filter (\<lambda>r. FoodID r \<noteq> k) (MENU db))))\<rparr>"
proof -
  let ?db' = "db\<lparr>MENU := filter (\<lambda>r. FoodID r \<noteq> k) (MENU db)\<rparr>"
  have "rowid_eq E i (bind_param (JString id')) = (i = k)" for i
    using assms(3) by (simp add: rowid_eq_text_numeric)
  then have "deleteMenuItemFromDB E (JString id') db = Inr ?db'"
    using assms(1,2) by (simp add: deleteMenuItemFromDB_result)
  then have del: "delete_api_menu E id' db
             = (\<lparr>status = 200, body = MessageBody ''Item deleted successfully''\<rparr>, ?db')"
    by (simp add: delete_api_menu_def)
  have len: "length (MENU ?db') + 1 = length (MENU db)"
    using length_filter_other_key [OF assms(5,4)] by simp
  have listing: "get_api_menu E ?db'
               = \<lparr>status = 200,
                  body = ItemsBody (map json_of_item (map driver_row
                           (filter (\<lambda>r. FoodID r \<noteq> k) (MENU db))))\<rparr>"
    using get_api_menu_result [OF assms(1,2), of ?db'] by simp
  from del len listing show ?thesis by (intro exI [of _ ?db']) simp
qed

text \<open>The identity 3 in the seeded store.\<close>

theorem C7_delete_removes_exactly_that_row_witness:
  "open_fault example_env = None \<and> stmt_fault example_env = None
   \<and> numeric_of_text example_env ''3'' = Some (Fin (of_int 3))
   \<and> 3 \<in> set (map FoodID (MENU seed_db))
   \<and> distinct (map FoodID (MENU seed_db))
   \<and> (\<exists>db'.
         delete_api_menu example_env ''3'' seed_db
           = (\<lparr>status = 200, body = MessageBody ''Item deleted successfully''\<rparr>, db')
         \<and> MENU db' = filter (\<lambda>r. FoodID r \<noteq> 3) (MENU seed_db)
         \<and> length (MENU db') + 1 = length (MENU seed_db)
         \<and> ORDERS db' = ORDERS seed_db
         \<and> get_api_menu example_env db'
             = \<lparr>status = 200,
                body = ItemsBody (map json_of_item (map driver_row
                         (filter (\<lambda>r. FoodID r \<noteq> 3) (MENU seed_db))))\<rparr>)"
proof -
  have h3: "numeric_of_text example_env ''3'' = Some (Fin (of_int 3))" by code_simp
  have h4: "3 \<in> set (map FoodID (MENU seed_db))" by code_simp
  have h5: "distinct (map FoodID (MENU seed_db))" by code_simp
  show ?thesis
    using example_env_no_fault h3 h4 h5
      C7_delete_removes_exactly_that_row [OF example_env_no_fault h3 h4 h5]
    by blast
qed

subsection \<open>C8: store failures\<close>



subsection \<open>C9: the store and the sign of a price\<close>

text \<open>
  C9: for every price that is a number (of any sign; a NaN is not a price, SQLite
  stores it as NULL), \<^verbatim>\<open>insertMenuItem\<close> in an environment without faults persists a
  row with exactly the given price: MENU gains that one row under the allotted rowid,
  and ORDERS and ORDER_DETAILS are unchanged.
\<close>

theorem C9_store_places_no_sign_constraint_on_price:
  assumes "open_fault E = None" and "stmt_fault E = None"
    and "n \<noteq> NaN"
    and "new_rowid E (map FoodID (MENU db)) = Some i"
  shows "\<exists>db'.
           insertMenuItem E (JString nm) (JNumber n) (JString d) db = Inr db'
           \<and> MENU db' = insort_key FoodID
               \<lparr>FoodID = i, FoodName = SText nm, Price = SNumeric n, Description = SText d\<rparr>
               (MENU db)
           \<and> set (MENU db')
               = insert \<lparr>FoodID = i, FoodName = SText nm, Price = SNumeric n, Description = SText d\<rparr>
                   (set (MENU db))
           \<and> ORDERS db' = ORDERS db
           \<and> ORDER_DETAILS db' = ORDER_DETAILS db"
  using insertMenuItem_result [OF assms, of nm d] by (simp add: set_insort_key)

text \<open>The price -5 in the seeded store.\<close>

theorem C9_negative_price_is_stored_witness:
  "open_fault example_env = None \<and> stmt_fault example_env = None \<and> Fin (- 5) \<noteq> NaN
   \<and> new_rowid example_env (map FoodID (MENU seed_db)) = Some 11
   \<and> (\<exists>db'.
         insertMenuItem example_env (JString ''Test Food'') (JNumber (Fin (- 5)))
             (JString ''An invalid test food'') seed_db = Inr db'
         \<and> MENU db' = insort_key FoodID
             \<lparr>FoodID = 11, FoodName = SText ''Test Food'', Price = SNumeric (Fin (- 5)),
              Description = SText ''An invalid test food''\<rparr> (MENU seed_db)
         \<and> set (MENU db')
             = insert \<lparr>FoodID = 11, FoodName = SText ''Test Food'', Price = SNumeric (Fin (- 5)),
                       Description = SText ''An invalid test food''\<rparr> (set (MENU seed_db))
         \<and> ORDERS db' = ORDERS seed_db
         \<and> ORDER_DETAILS db' = ORDER_DETAILS seed_db)"
proof -
  have h3: "Fin (- 5) \<noteq> NaN" by simp
  show ?thesis
    using example_env_no_fault h3 seed_new_rowid
      C9_store_places_no_sign_constraint_on_price
        [OF example_env_no_fault h3 seed_new_rowid,
          of "''Test Food''" "''An invalid test food''"]
    by blast
qed

subsection \<open>C10: a Price that is not a number\<close>

text \<open>
  C10: POST /api/menu answers 400 only for a Price that compares less than 0 under
  JavaScript's \<^verbatim>\<open><\<close>. A request whose Price is absent, \<^verbatim>\<open>null\<close> or a string that
  converts to NaN is not answered with 400: the handler passes the Price as it is to
  \<^verbatim>\<open>insertMenuItem\<close> and answers by the outcome of the insert.
\<close>

theorem C10_only_a_price_below_zero_is_rejected:
  "(status (fst (post_api_menu E req db)) = 400 \<longrightarrow> js_lt E (req_Price req) (Fin 0))
   \<and> (req_Price req = JUndefined \<or> req_Price req = JNull
        \<or> (\<exists>s. req_Price req = JString s \<and> StringToNumber E s = NaN) \<longrightarrow>
      status (fst (post_api_menu E req db)) \<noteq> 400
      \<and> post_api_menu E req db
          = (case insertMenuItem E (req_FoodName req) (req_Price req) (req_Description req) db of
               Inr db' \<Rightarrow> (\<lparr>status = 200, body = MessageBody ''Item added successfully''\<rparr>, db')
             | Inl err \<Rightarrow>
                 (\<lparr>status = 500,
                   body = ErrorBody ''Internal Server Error: Please try again later.''\<rparr>, db)))"
  by (auto simp: post_api_menu_def js_lt_def split: sum.splits if_splits)

text \<open>
  An absent Price and a \<^verbatim>\<open>null\<close> Price reach the store, which rejects the NULL; the
  Price \<open>''abc''\<close> reaches the store and is persisted as text.
\<close>

theorem C10_non_numeric_price_witness:
  "status (fst (post_api_menu example_env
       \<lparr>req_FoodName = JString ''Test Food'', req_Price = JUndefined,
        req_Description = JString ''A tasty test food''\<rparr> seed_db)) \<noteq> 400
   \<and> post_api_menu example_env
       \<lparr>req_FoodName = JString ''Test Food'', req_Price = JUndefined,
        req_Description = JString ''A tasty test food''\<rparr> seed_db
     = (\<lparr>status = 500, body = ErrorBody ''Internal Server Error: Please try again later.''\<rparr>,
        seed_db)
   \<and> status (fst (post_api_menu example_env
       \<lparr>req_FoodName = JString ''Test Food'', req_Price = JNull,
        req_Description = JString ''A tasty test food''\<rparr> seed_db)) \<noteq> 400
   \<and> StringToNumber example_env ''abc'' = NaN
   \<and> status (fst (post_api_menu example_env
       \<lparr>req_FoodName = JString ''Test Food'', req_Price = JString ''abc'',
        req_Description = JString ''A tasty test food''\<rparr> seed_db)) \<noteq> 400
   \<and> post_api_menu example_env
       \<lparr>req_FoodName = JString ''Test Food'', req_Price = JString ''abc'',
        req_Description = JString ''A tasty test food''\<rparr> seed_db
     = (\<lparr>status = 200, body = MessageBody ''Item added successfully''\<rparr>,
        seed_db\<lparr>MENU := MENU seed_db @
          [\<lparr>FoodID = 11, FoodName = SText ''Test Food'', Price = SText ''abc'',
            Description = SText ''A tasty test food''\<rparr>]\<rparr>)"
proof -
  let ?absent = "\<lparr>req_FoodName = JString ''Test Food'', req_Price = JUndefined,
        req_Description = JString ''A tasty test food''\<rparr>"
  let ?null = "\<lparr>req_FoodName = JString ''Test Food'', req_Price = JNull,
        req_Description = JString ''A tasty test food''\<rparr>"
  let ?text = "\<lparr>req_FoodName = JString ''Test Food'', req_Price = JString ''abc'',
        req_Description = JString ''A tasty test food''\<rparr>"
  have nan: "StringToNumber example_env ''abc'' = NaN" by code_simp
  have ins_absent:
    "insertMenuItem example_env (JString ''Test Food'') JUndefined (JString ''A tasty test food'')
       seed_db
     = Inl (StoreError ''SQLITE_CONSTRAINT: NOT NULL constraint failed: MENU.Price'')"
    by (simp add: insertMenuItem_def getDBConnection_no_fault example_env_no_fault
        insert_menu_def seed_new_rowid text_affinity_def numeric_affinity_def)
  have ins_text:
    "insertMenuItem example_env (JString ''Test Food'') (JString ''abc'')
       (JString ''A tasty test food'') seed_db
     = Inr (seed_db\<lparr>MENU := MENU seed_db @
          [\<lparr>FoodID = 11, FoodName = SText ''Test Food'', Price = SText ''abc'',
            Description = SText ''A tasty test food''\<rparr>]\<rparr>)"
    by code_simp
  have a: "status (fst (post_api_menu example_env ?absent seed_db)) \<noteq> 400
      \<and> post_api_menu example_env ?absent seed_db
        = (\<lparr>status = 500, body = ErrorBody ''Internal Server Error: Please try again later.''\<rparr>,
           seed_db)"
    using C10_only_a_price_below_zero_is_rejected [of example_env ?absent seed_db] ins_absent
    by simp
  have b: "status (fst (post_api_menu example_env ?null seed_db)) \<noteq> 400"
    using C10_only_a_price_below_zero_is_rejected [of example_env ?null seed_db]
    unfolding post_body.simps by blast
  have c: "status (fst (post_api_menu example_env ?text seed_db)) \<noteq> 400
      \<and> post_api_menu example_env ?text seed_db
        = (\<lparr>status = 200, body = MessageBody ''Item added successfully''\<rparr>,
        seed_db\<lparr>MENU := MENU seed_db @
          [\<lparr>FoodID = 11, FoodName = SText ''Test Food'', Price = SText ''abc'',
            Description = SText ''A tasty test food''\<rparr>]\<rparr>)"
    using C10_only_a_price_below_zero_is_rejected [of example_env ?text seed_db] nan ins_text
    by simp
  from a b nan c show ?thesis by blast
qed

end
